theory Spec2Isabelle
  imports Complex_Main "HOL-Library.Word"
begin

unbundle bit_operations_syntax

section \<open>Card primitives (step1\_card\_system\_advanced.cpp)\<close>

text \<open>
  A \<open>Card\<close> is a \<open>uint8_t\<close>; it is modelled by its value as an \<open>int\<close>.
  Every C++ \<open>int\<close> of the evaluator is an \<open>int\<close> here as well: no intermediate
  value of the evaluator leaves the 32-bit range, and the two narrowing conversions
  (to \<open>uint16_t\<close> in the tables, to \<open>uint32_t\<close> on return) are written out as
  \<open>mod\<close>. Behaviour that C++ leaves undefined is an error value.
\<close>

type_synonym Card = int

datatype cpp_error = UndefinedShift | OutOfBounds | DivideByZero | NullPointer | UninitializedRead

definition RANK_COUNT :: int where "RANK_COUNT = 13"
definition SUIT_COUNT :: int where "SUIT_COUNT = 4"

definition make_card :: "int \<Rightarrow> int \<Rightarrow> Card" where
  "make_card rank suit = (suit * RANK_COUNT + rank) mod 256"

definition get_rank :: "Card \<Rightarrow> int" where
  "get_rank c = c mod RANK_COUNT"

definition get_suit :: "Card \<Rightarrow> int" where
  "get_suit c = c div RANK_COUNT"



section \<open>Hand evaluator (step2\_3\_perfect\_evaluator.cpp)\<close>

definition RANK_STRAIGHT_FLUSH :: int where "RANK_STRAIGHT_FLUSH = 8"
definition RANK_FOUR_OF_KIND :: int where "RANK_FOUR_OF_KIND = 7"
definition RANK_FULL_HOUSE :: int where "RANK_FULL_HOUSE = 6"
definition RANK_FLUSH :: int where "RANK_FLUSH = 5"
definition RANK_STRAIGHT :: int where "RANK_STRAIGHT = 4"
definition RANK_THREE_OF_KIND :: int where "RANK_THREE_OF_KIND = 3"
definition RANK_TWO_PAIR :: int where "RANK_TWO_PAIR = 2"
definition RANK_ONE_PAIR :: int where "RANK_ONE_PAIR = 1"
definition RANK_HIGH_CARD :: int where "RANK_HIGH_CARD = 0"

text \<open>The index sequences of the source's descending \<open>for\<close> loops.\<close>

definition ranks_desc :: "int list" where
  "ranks_desc = [12, 11, 10, 9, 8, 7, 6, 5, 4, 3, 2, 1, 0]"

definition windows_desc :: "int list" where
  "windows_desc = [8, 7, 6, 5, 4, 3, 2, 1, 0]"

text \<open>
  \<open>mask >> k\<close> on a 32-bit \<open>int\<close>: undefined for a negative or too large \<open>k\<close>.
\<close>

definition shr :: "int \<Rightarrow> int \<Rightarrow> cpp_error + int" where
  "shr msk k = (if k < 0 \<or> 32 \<le> k then Inl UndefinedShift else Inr (drop_bit (nat k) msk))"

definition shl :: "int \<Rightarrow> int \<Rightarrow> int" where
  "shl x k = push_bit (nat k) x"

fun popcount :: "nat \<Rightarrow> nat" where
  "popcount n = (if n = 0 then 0 else n mod 2 + popcount (n div 2))"

declare popcount.simps [simp del]

subsection \<open>EvaluatorTables\<close>

definition is_straight :: "int \<Rightarrow> bool" where
  "is_straight msk =
     (if list_ex (\<lambda>i. drop_bit (nat i) msk AND 0x1F = 0x1F) windows_desc then True
      else msk AND 0x100F = 0x100F)"

fun get_highest_straight_loop :: "int \<Rightarrow> int list \<Rightarrow> cpp_error + int" where
  "get_highest_straight_loop msk [] = Inr 3"
| "get_highest_straight_loop msk (i # rest) =
     (case shr msk (i - 4) of
        Inl e \<Rightarrow> Inl e
      | Inr v \<Rightarrow> if v AND 0x1F = 0x1F then Inr i else get_highest_straight_loop msk rest)"

text \<open>The table builder's loop runs \<open>i\<close> from 12 down to 3 (source line 60).\<close>

definition get_highest_straight :: "int \<Rightarrow> cpp_error + int" where
  "get_highest_straight msk =
     get_highest_straight_loop msk [12, 11, 10, 9, 8, 7, 6, 5, 4, 3]"

fun get_top_cards_loop :: "int \<Rightarrow> int \<Rightarrow> int list \<Rightarrow> int \<Rightarrow> int \<Rightarrow> int" where
  "get_top_cards_loop msk count [] result found = result"
| "get_top_cards_loop msk count (i # rest) result found =
     (if found < count then
        (if msk AND shl 1 i \<noteq> 0
         then get_top_cards_loop msk count rest (result OR shl i (found * 4)) (found + 1)
         else get_top_cards_loop msk count rest result found)
      else result)"

definition get_top_cards :: "int \<Rightarrow> int \<Rightarrow> int" where
  "get_top_cards msk count = get_top_cards_loop msk count ranks_desc 0 0"

text \<open>Both builders return \<open>uint16_t\<close>: the \<open>int\<close> value is reduced modulo \<open>2^16\<close>.\<close>

definition evaluate_flush_hand :: "int \<Rightarrow> cpp_error + int" where
  "evaluate_flush_hand msk =
     (if is_straight msk then
        (case get_highest_straight msk of
           Inl e \<Rightarrow> Inl e
         | Inr high \<Rightarrow> Inr ((shl RANK_STRAIGHT_FLUSH 12 OR shl high 8) mod 65536))
      else Inr ((shl RANK_FLUSH 12 OR get_top_cards msk 5) mod 65536))"

definition evaluate_unique5 :: "int \<Rightarrow> cpp_error + int" where
  "evaluate_unique5 msk =
     (if is_straight msk then
        (case get_highest_straight msk of
           Inl e \<Rightarrow> Inl e
         | Inr high \<Rightarrow> Inr ((shl RANK_STRAIGHT 12 OR shl high 8) mod 65536))
      else Inr ((shl RANK_HIGH_CARD 12 OR get_top_cards msk 5) mod 65536))"

text \<open>
  The tables are filled once by the constructor of the static \<open>g_tables\<close>:
  \<open>flush_lookup[i] = evaluate_flush_hand(i)\<close> for every \<open>i\<close>, and
  \<open>unique5_lookup[i] = evaluate_unique5(i)\<close> only where \<open>popcount(i) = 5\<close>; the
  other entries keep the zero of static initialisation.
\<close>

definition flush_lookup :: "int \<Rightarrow> cpp_error + int" where
  "flush_lookup i = (if 0 \<le> i \<and> i < 8192 then evaluate_flush_hand i else Inl OutOfBounds)"

definition unique5_lookup :: "int \<Rightarrow> cpp_error + int" where
  "unique5_lookup i =
     (if 0 \<le> i \<and> i < 8192
      then (if popcount (nat i) = 5 then evaluate_unique5 i else Inr 0)
      else Inl OutOfBounds)"

subsection \<open>HandEvaluator\<close>

definition is_straight_from_mask :: "int \<Rightarrow> bool" where
  "is_straight_from_mask msk =
     (if list_ex (\<lambda>i. drop_bit (nat i) msk AND 0x1F = 0x1F) windows_desc then True
      else msk AND 0x100F = 0x100F)"

text \<open>The evaluator's own loop stops at \<open>i = 4\<close> (source line 198).\<close>

definition get_straight_high :: "int \<Rightarrow> cpp_error + int" where
  "get_straight_high msk =
     get_highest_straight_loop msk [12, 11, 10, 9, 8, 7, 6, 5, 4]"

definition get_highest_kicker :: "int list \<Rightarrow> int \<Rightarrow> int" where
  "get_highest_kicker counts exclude =
     (case find (\<lambda>r. r \<noteq> exclude \<and> counts ! nat r > 0) ranks_desc of
        Some r \<Rightarrow> r | None \<Rightarrow> 0)"

definition get_highest_kicker_exclude :: "int list \<Rightarrow> int \<Rightarrow> int \<Rightarrow> int" where
  "get_highest_kicker_exclude counts ex1 ex2 =
     (case find (\<lambda>r. r \<noteq> ex1 \<and> r \<noteq> ex2 \<and> counts ! nat r > 0) ranks_desc of
        Some r \<Rightarrow> r | None \<Rightarrow> 0)"

fun get_top_kickers_loop ::
  "int list \<Rightarrow> int \<Rightarrow> int \<Rightarrow> int list \<Rightarrow> int \<Rightarrow> int \<Rightarrow> int" where
  "get_top_kickers_loop counts exclude n [] result found = result"
| "get_top_kickers_loop counts exclude n (r # rest) result found =
     (if found < n then
        (if r \<noteq> exclude \<and> counts ! nat r > 0
         then get_top_kickers_loop counts exclude n rest (result OR shl r (found * 4)) (found + 1)
         else get_top_kickers_loop counts exclude n rest result found)
      else result)"

definition get_top_kickers :: "int list \<Rightarrow> int \<Rightarrow> int \<Rightarrow> int" where
  "get_top_kickers counts exclude n = get_top_kickers_loop counts exclude n ranks_desc 0 0"

record scan_state =
  quads :: int
  trips :: int
  pairs :: "int list"
  pair_count :: int

definition scan_init :: scan_state where
  "scan_init = \<lparr>quads = -1, trips = -1, pairs = [-1, -1], pair_count = 0\<rparr>"

definition scan_step :: "int list \<Rightarrow> int \<Rightarrow> scan_state \<Rightarrow> scan_state" where
  "scan_step counts r st =
     (if counts ! nat r = 4 then st\<lparr>quads := r\<rparr>
      else if counts ! nat r = 3 then
        (if trips st = -1 then st\<lparr>trips := r\<rparr> else st)
      else if counts ! nat r = 2 then
        (if pair_count st < 2
         then st\<lparr>pairs := (pairs st)[nat (pair_count st) := r],
                 pair_count := pair_count st + 1\<rparr>
         else st)
      else st)"

definition scan_counts :: "int list \<Rightarrow> scan_state" where
  "scan_counts counts = fold (scan_step counts) ranks_desc scan_init"

definition second_trips :: "int list \<Rightarrow> int \<Rightarrow> int \<Rightarrow> int" where
  "second_trips counts trips0 pair0 =
     (case find (\<lambda>r. counts ! nat r = 3 \<and> r \<noteq> trips0) ranks_desc of
        Some r \<Rightarrow> r | None \<Rightarrow> pair0)"

definition evaluate_non_flush :: "int list \<Rightarrow> int \<Rightarrow> cpp_error + int" where
  "evaluate_non_flush counts rank_mask =
     (let st = scan_counts counts in
      if quads st \<noteq> -1 then
        Inr ((shl RANK_FOUR_OF_KIND 12 OR shl (quads st) 8
              OR get_highest_kicker counts (quads st)) mod 2 ^ 32)
      else if trips st \<noteq> -1 \<and> (pairs st ! 0 \<noteq> -1 \<or> pair_count st > 0) then
        Inr ((shl RANK_FULL_HOUSE 12 OR shl (trips st) 8
              OR second_trips counts (trips st) (pairs st ! 0)) mod 2 ^ 32)
      else if is_straight_from_mask rank_mask then
        (case get_straight_high rank_mask of
           Inl e \<Rightarrow> Inl e
         | Inr high \<Rightarrow> Inr ((shl RANK_STRAIGHT 12 OR shl high 8) mod 2 ^ 32))
      else if trips st \<noteq> -1 then
        Inr ((shl RANK_THREE_OF_KIND 12 OR shl (trips st) 8
              OR get_top_kickers counts (trips st) 2) mod 2 ^ 32)
      else if pair_count st \<ge> 2 then
        Inr ((shl RANK_TWO_PAIR 12 OR shl (pairs st ! 0) 8 OR shl (pairs st ! 1) 4
              OR get_highest_kicker_exclude counts (pairs st ! 0) (pairs st ! 1)) mod 2 ^ 32)
      else if pair_count st = 1 then
        Inr ((shl RANK_ONE_PAIR 12 OR shl (pairs st ! 0) 8
              OR get_top_kickers counts (pairs st ! 0) 3) mod 2 ^ 32)
      else unique5_lookup (rank_mask AND 0x1FFF))"

record tally =
  suit_masks :: "int list"
  rank_counts :: "int list"
  rank_mask :: int

definition tally_init :: tally where
  "tally_init = \<lparr>suit_masks = [0, 0, 0, 0],
                 rank_counts = [0, 0, 0, 0, 0, 0, 0, 0, 0, 0, 0, 0, 0],
                 rank_mask = 0\<rparr>"

text \<open>
  One turn of the first loop of \<open>evaluate_7cards\<close>. A card of 52 or more has a suit
  index outside \<open>suit_masks\<close>: the write is out of bounds.
\<close>

definition tally_card :: "Card \<Rightarrow> tally \<Rightarrow> cpp_error + tally" where
  "tally_card c t =
     (let r = get_rank c; s = get_suit c in
      if s < 0 \<or> 4 \<le> s then Inl OutOfBounds
      else Inr \<lparr>suit_masks = (suit_masks t)[nat s := (suit_masks t ! nat s) OR shl 1 r],
                rank_counts = (rank_counts t)[nat r := (rank_counts t ! nat r + 1) mod 256],
                rank_mask = rank_mask t OR shl 1 r\<rparr>)"

fun tally_cards :: "Card list \<Rightarrow> tally \<Rightarrow> cpp_error + tally" where
  "tally_cards [] t = Inr t"
| "tally_cards (c # cs) t =
     (case tally_card c t of Inl e \<Rightarrow> Inl e | Inr t' \<Rightarrow> tally_cards cs t')"

definition evaluate_7cards :: "Card list \<Rightarrow> cpp_error + int" where
  "evaluate_7cards cards =
     (if length cards < 7 then Inl OutOfBounds
      else case tally_cards (take 7 cards) tally_init of
        Inl e \<Rightarrow> Inl e
      | Inr t \<Rightarrow>
          (case find (\<lambda>m. popcount (nat m) \<ge> 5) (suit_masks t) of
             Some m \<Rightarrow> flush_lookup m
           | None \<Rightarrow> evaluate_non_flush (rank_counts t) (rank_mask t)))"

subsection \<open>Reference ranking of the standard rules\<close>

text \<open>
  The standard ranking the evaluator is compared with, written from the rules of poker
  and not from the source: a five-card hand is ranked by its category followed by its
  tiebreaking ranks (most significant first), a seven-card set by the best of its
  twenty-one five-card subsets, and rankings are compared lexicographically.
\<close>

fun lex_less :: "int list \<Rightarrow> int list \<Rightarrow> bool" where
  "lex_less [] [] = False"
| "lex_less [] (y # ys) = True"
| "lex_less (x # xs) [] = False"
| "lex_less (x # xs) (y # ys) = (x < y \<or> (x = y \<and> lex_less xs ys))"

definition ref_is_straight :: "int list \<Rightarrow> bool" where
  "ref_is_straight rs =
     (distinct rs \<and> length rs = 5 \<and> (hd rs - last rs = 4 \<or> rs = [12, 3, 2, 1, 0]))"

definition ref_straight_high :: "int list \<Rightarrow> int" where
  "ref_straight_high rs = (if rs = [12, 3, 2, 1, 0] then 3 else hd rs)"

definition ref_rank5 :: "Card list \<Rightarrow> int list" where
  "ref_rank5 hand =
     (let rs = rev (sort (map get_rank hand));
          is_flush = (length (remdups (map get_suit hand)) = 1);
          groups = rev (sort (map (\<lambda>r. int (count_list rs r) * 13 + r) (remdups rs)));
          shape = map (\<lambda>k. k div 13) groups;
          by_group = map (\<lambda>k. k mod 13) groups
      in if ref_is_straight rs \<and> is_flush then [8, ref_straight_high rs]
         else if shape = [4, 1] then 7 # by_group
         else if shape = [3, 2] then 6 # by_group
         else if is_flush then 5 # rs
         else if ref_is_straight rs then [4, ref_straight_high rs]
         else if shape = [3, 1, 1] then 3 # by_group
         else if shape = [2, 2, 1] then 2 # by_group
         else if shape = [2, 1, 1, 1] then 1 # by_group
         else 0 # rs)"

definition ref_rank7 :: "Card list \<Rightarrow> int list" where
  "ref_rank7 cards =
     fold (\<lambda>h best. if lex_less best (ref_rank5 h) then ref_rank5 h else best)
       (filter (\<lambda>h. length h = 5) (subseqs cards)) []"

definition ref_beats :: "Card list \<Rightarrow> Card list \<Rightarrow> bool" where
  "ref_beats s1 s2 = lex_less (ref_rank7 s2) (ref_rank7 s1)"

section \<open>Equity simulator (step4\_5\_optimized\_monte\_carlo.cpp)\<close>
























subsection \<open>The scores of all opponents of one iteration\<close>



section \<open>Realized-equity adjustment (step9\_eqr\_complete.cpp)\<close>

text \<open>
  A C++ \<open>double\<close> is modelled as a \<open>real\<close>: the arithmetic is exact, so rounding,
  infinities and NaN are outside the model. Comparisons against the literal thresholds
  and the choice of table entries are the same in both.
\<close>

definition FACTORS :: "real list" where
  "FACTORS = [0.75, 0.78, 0.82, 0.86, 0.92, 0.98, 1.18, 0.70, 0.68]"

text \<open>\<open>FACTORS[std::min(position, 8)]\<close>: a negative position reads before the array.\<close>

definition get_factor :: "int \<Rightarrow> cpp_error + real" where
  "get_factor position =
     (let i = min position 8 in if i < 0 then Inl OutOfBounds else Inr (FACTORS ! nat i))"

definition StackDepthAdjustment_calculate :: "real \<Rightarrow> real" where
  "StackDepthAdjustment_calculate spr =
     (if spr < 1.0 then 1.25
      else if spr < 3.0 then 1.15
      else if spr < 7.0 then 1.05
      else if spr < 13.0 then 1.00
      else if spr < 25.0 then 0.95
      else 0.90)"

definition BoardTextureAdjustment_calculate :: "int \<Rightarrow> bool \<Rightarrow> real" where
  "BoardTextureAdjustment_calculate texture_score in_position =
     (if texture_score = 0 then (if in_position then 1.08 else 0.95)
      else if texture_score = 1 then (if in_position then 1.02 else 0.98)
      else (if in_position then 0.95 else 0.92))"

definition MultiwayAdjustment_calculate :: "int \<Rightarrow> real" where
  "MultiwayAdjustment_calculate opponents = 1.0 / (1.0 + 0.18 * real_of_int (opponents - 1))"

definition SkillAdjustment_calculate :: "real \<Rightarrow> real" where
  "SkillAdjustment_calculate opponent_skill = 1.05 - (opponent_skill * 0.15)"

record EQRResult =
  raw_equity :: real
  eqr :: real
  position_factor :: real
  stack_factor :: real
  board_factor :: real
  multiway_factor :: real
  skill_factor :: real

definition calculate_complete ::
  "real \<Rightarrow> int \<Rightarrow> real \<Rightarrow> real \<Rightarrow> int \<Rightarrow> int \<Rightarrow> bool \<Rightarrow> real \<Rightarrow> cpp_error + EQRResult" where
  "calculate_complete raw position stack pot board_texture opponents in_position opponent_skill =
     (case get_factor position of
        Inl e \<Rightarrow> Inl e
      | Inr pf \<Rightarrow>
          (let spr = (if pot > 0 then stack / pot else 100.0);
               sf = StackDepthAdjustment_calculate spr;
               bf = BoardTextureAdjustment_calculate board_texture in_position;
               mf = MultiwayAdjustment_calculate opponents;
               kf = SkillAdjustment_calculate opponent_skill;
               product = raw * pf * sf * bf * mf * kf
           in Inr \<lparr>raw_equity = raw, eqr = min 1.0 (max 0.0 product),
                    position_factor = pf, stack_factor = sf, board_factor = bf,
                    multiway_factor = mf, skill_factor = kf\<rparr>))"

section \<open>CFR solver (step6\_7\_cfr\_engine\_complete.cpp)\<close>

text \<open>
  A \<open>std::map<Action, double>\<close> is a finite map \<open>Action \<rightharpoonup> real\<close>. Its
  \<open>operator[]\<close> inserts a zero under a missing key before it returns the entry, so the
  model returns the map along with the value. A range-\<open>for\<close> over a map touches every
  key once; it is written as the pointwise update of the entries.
\<close>

type_synonym Action = int
type_synonym Utility = real

definition map_index :: "('k \<rightharpoonup> real) \<Rightarrow> 'k \<Rightarrow> real \<times> ('k \<rightharpoonup> real)" where
  "map_index m k = (case m k of Some v \<Rightarrow> (v, m) | None \<Rightarrow> (0, m(k \<mapsto> 0)))"

record InfoSet =
  regret_sum :: "Action \<rightharpoonup> real"
  strategy_sum :: "Action \<rightharpoonup> real"
  visit_count :: int

definition InfoSet_new :: InfoSet where
  "InfoSet_new = \<lparr>regret_sum = Map.empty, strategy_sum = Map.empty, visit_count = 0\<rparr>"

text \<open>First loop of \<open>InfoSet::get_strategy\<close>: clip the regrets and add them up.\<close>

fun clip_regrets ::
  "Action list \<Rightarrow> (Action \<rightharpoonup> real) \<Rightarrow> (Action \<rightharpoonup> real) \<Rightarrow> real
   \<Rightarrow> (Action \<rightharpoonup> real) \<times> (Action \<rightharpoonup> real) \<times> real" where
  "clip_regrets [] rs strategy normalizing_sum = (rs, strategy, normalizing_sum)"
| "clip_regrets (a # rest) rs strategy normalizing_sum =
     (let (v, rs') = map_index rs a;
          regret = max 0.0 v
      in clip_regrets rest rs' (strategy(a \<mapsto> regret)) (normalizing_sum + regret))"

fun normalize_loop :: "Action list \<Rightarrow> (Action \<rightharpoonup> real) \<Rightarrow> real \<Rightarrow> (Action \<rightharpoonup> real)" where
  "normalize_loop [] strategy normalizing_sum = strategy"
| "normalize_loop (a # rest) strategy normalizing_sum =
     (let (v, strategy') = map_index strategy a
      in normalize_loop rest (strategy'(a \<mapsto> v / normalizing_sum)) normalizing_sum)"

fun uniform_loop :: "Action list \<Rightarrow> (Action \<rightharpoonup> real) \<Rightarrow> real \<Rightarrow> (Action \<rightharpoonup> real)" where
  "uniform_loop [] strategy p = strategy"
| "uniform_loop (a # rest) strategy p = uniform_loop rest (strategy(a \<mapsto> p)) p"

definition InfoSet_get_strategy :: "InfoSet \<Rightarrow> Action list \<Rightarrow> (Action \<rightharpoonup> real) \<times> InfoSet" where
  "InfoSet_get_strategy info legal_actions =
     (let (rs, strategy, normalizing_sum) =
            clip_regrets legal_actions (regret_sum info) Map.empty 0.0;
          info' = info\<lparr>regret_sum := rs\<rparr>
      in if normalizing_sum > 0
         then (normalize_loop legal_actions strategy normalizing_sum, info')
         else (uniform_loop legal_actions strategy (1.0 / real (length legal_actions)), info'))"

fun sum_strategy :: "Action list \<Rightarrow> (Action \<rightharpoonup> real) \<Rightarrow> real \<Rightarrow> (Action \<rightharpoonup> real) \<times> real" where
  "sum_strategy [] ss normalizing_sum = (ss, normalizing_sum)"
| "sum_strategy (a # rest) ss normalizing_sum =
     (let (v, ss') = map_index ss a in sum_strategy rest ss' (normalizing_sum + v))"

fun average_loop ::
  "Action list \<Rightarrow> (Action \<rightharpoonup> real) \<Rightarrow> (Action \<rightharpoonup> real) \<Rightarrow> real
   \<Rightarrow> (Action \<rightharpoonup> real) \<times> (Action \<rightharpoonup> real)" where
  "average_loop [] ss avg normalizing_sum = (avg, ss)"
| "average_loop (a # rest) ss avg normalizing_sum =
     (let (v, ss') = map_index ss a
      in average_loop rest ss' (avg(a \<mapsto> v / normalizing_sum)) normalizing_sum)"

definition get_average_strategy :: "InfoSet \<Rightarrow> Action list \<Rightarrow> (Action \<rightharpoonup> real) \<times> InfoSet" where
  "get_average_strategy info legal_actions =
     (let (ss, normalizing_sum) = sum_strategy legal_actions (strategy_sum info) 0.0
      in if normalizing_sum > 0
         then (let (avg, ss') = average_loop legal_actions ss Map.empty normalizing_sum
               in (avg, info\<lparr>strategy_sum := ss'\<rparr>))
         else (uniform_loop legal_actions Map.empty (1.0 / real (length legal_actions)),
               info\<lparr>strategy_sum := ss\<rparr>))"

definition accumulate_strategy :: "InfoSet \<Rightarrow> (Action \<rightharpoonup> real) \<Rightarrow> int \<Rightarrow> InfoSet" where
  "accumulate_strategy info strategy iteration_no =
     (let weight = real_of_int iteration_no / real_of_int (iteration_no + 1)
      in info\<lparr>strategy_sum :=
           (\<lambda>a. case strategy a of
                   None \<Rightarrow> strategy_sum info a
                 | Some p \<Rightarrow> Some (fst (map_index (strategy_sum info) a) + p * weight))\<rparr>)"

definition update_regrets :: "InfoSet \<Rightarrow> (Action \<rightharpoonup> real) \<Rightarrow> real \<Rightarrow> InfoSet" where
  "update_regrets info regrets weight =
     info\<lparr>regret_sum :=
       (\<lambda>a. case regrets a of
               None \<Rightarrow> regret_sum info a
             | Some regret \<Rightarrow>
                 Some (max 0.0 (fst (map_index (regret_sum info) a) + weight * regret)))\<rparr>"

record CFRSolver =
  info_sets :: "string \<rightharpoonup> InfoSet"
  iteration :: int
  discount_alpha :: real
  discount_beta :: real

definition CFRSolver_new :: CFRSolver where
  "CFRSolver_new = \<lparr>info_sets = Map.empty, iteration = 0,
                     discount_alpha = 1.5, discount_beta = 0.5\<rparr>"

text \<open>\<open>std::pow(x, -1.0)\<close> is the real power \<open>x powr (-1)\<close>.\<close>

definition discount_info_set :: "real \<Rightarrow> real \<Rightarrow> InfoSet \<Rightarrow> InfoSet" where
  "discount_info_set alpha beta info =
     info\<lparr>regret_sum := map_option (\<lambda>regret. regret * alpha powr (- 1.0)) \<circ> regret_sum info,
          strategy_sum := map_option (\<lambda>strategy. strategy * beta powr (- 1.0)) \<circ> strategy_sum info\<rparr>"

definition discount_regrets :: "CFRSolver \<Rightarrow> CFRSolver" where
  "discount_regrets s =
     s\<lparr>info_sets :=
         map_option (discount_info_set (discount_alpha s) (discount_beta s)) \<circ> info_sets s\<rparr>"

subsection \<open>The game-logic hooks, as the source has them\<close>

definition is_terminal :: bool where "is_terminal = False"
definition is_chance_node :: bool where "is_chance_node = False"
definition get_current_player :: int where "get_current_player = 0"
definition get_info_set_key :: string where "get_info_set_key = ''example_state''"
definition get_legal_actions :: "Action list" where "get_legal_actions = [0, 1, 2]"
definition get_payoff :: "int \<Rightarrow> Utility" where "get_payoff player = 0.0"
definition get_chance_outcomes :: "(int \<times> real) list" where "get_chance_outcomes = []"

subsection \<open>The recursive traversal\<close>

text \<open>
  \<open>InfoSet& info_set = info_sets[key]\<close> binds a reference to the entry, creating it
  when missing. The reference stays valid across the recursive calls, which may
  themselves change the entry; the model therefore reads the entry from the current
  store whenever the source goes through the reference.
\<close>

definition info_set_ref :: "CFRSolver \<Rightarrow> string \<Rightarrow> InfoSet \<times> CFRSolver" where
  "info_set_ref s k =
     (case info_sets s k of
        Some info \<Rightarrow> (info, s)
      | None \<Rightarrow> (InfoSet_new, s\<lparr>info_sets := (info_sets s)(k \<mapsto> InfoSet_new)\<rparr>))"

definition put_info_set :: "CFRSolver \<Rightarrow> string \<Rightarrow> InfoSet \<Rightarrow> CFRSolver" where
  "put_info_set s k info = s\<lparr>info_sets := (info_sets s)(k \<mapsto> info)\<rparr>"

text \<open>The common prologue of the player and opponent nodes.\<close>

definition node_strategy :: "CFRSolver \<Rightarrow> string \<Rightarrow> Action list \<Rightarrow> (Action \<rightharpoonup> real) \<times> CFRSolver" where
  "node_strategy s k legal_actions =
     (let (info, s1) = info_set_ref s k;
          (strategy, info') = InfoSet_get_strategy info legal_actions
      in (strategy, put_info_set s1 k info'))"

text \<open>The regret map built after the action loop of \<open>handle_player_node\<close>.\<close>

fun regrets_loop ::
  "Action list \<Rightarrow> (Action \<rightharpoonup> real) \<Rightarrow> Utility \<Rightarrow> (Action \<rightharpoonup> real)
   \<Rightarrow> (Action \<rightharpoonup> real)" where
  "regrets_loop [] action_utilities node_utility regrets = regrets"
| "regrets_loop (a # rest) action_utilities node_utility regrets =
     (let (u, action_utilities') = map_index action_utilities a
      in regrets_loop rest action_utilities' node_utility (regrets(a \<mapsto> u - node_utility)))"

definition player_node_finish ::
  "CFRSolver \<Rightarrow> string \<Rightarrow> Action list \<Rightarrow> (Action \<rightharpoonup> real) \<Rightarrow> (Action \<rightharpoonup> real)
   \<Rightarrow> Utility \<Rightarrow> real \<Rightarrow> CFRSolver" where
  "player_node_finish s k legal_actions strategy action_utilities node_utility pi_reach_opponent =
     (let regrets = regrets_loop legal_actions action_utilities node_utility Map.empty;
          (info, s1) = info_set_ref s k;
          info1 = update_regrets info regrets pi_reach_opponent;
          info2 = accumulate_strategy info1 strategy (iteration s1);
          info3 = info2\<lparr>visit_count := visit_count info2 + 1\<rparr>
      in put_info_set s1 k info3)"

text \<open>A loop whose body may fail to return: the option monad's fold.\<close>

fun foldM_option :: "('a \<Rightarrow> 'b \<Rightarrow> 'b option) \<Rightarrow> 'a list \<Rightarrow> 'b \<Rightarrow> 'b option" where
  "foldM_option body [] acc = Some acc"
| "foldM_option body (x # xs) acc = Option.bind (body x acc) (foldM_option body xs)"

lemma foldM_option_mono [partial_function_mono]:
  assumes "\<And>x acc. mono_option (\<lambda>f. body f x acc)"
  shows "mono_option (\<lambda>f. foldM_option (body f) xs acc)"
proof (induction xs arbitrary: acc)
  case Nil
  show ?case by (simp add: option.const_mono)
next
  case (Cons x xs)
  show ?case
    unfolding foldM_option.simps
    by (rule bind_mono) (rule assms, rule Cons.IH)
qed

text \<open>
  \<open>cfr_recursive\<close> with \<open>handle_player_node\<close>, \<open>handle_opponent_node\<close> and
  \<open>handle_chance_node\<close> written in place. The result is \<open>None\<close> when the call does not
  return. The accumulators of the action loops are
  (strategy, action utilities, node utility, solver) at a player node and
  (strategy, node utility, solver) at an opponent node; the two hooks
  \<open>apply_chance_outcome\<close> and \<open>revert_chance_outcome\<close> have empty bodies.
\<close>

partial_function (option) cfr_recursive ::
  "int \<Rightarrow> int \<Rightarrow> real \<Rightarrow> real \<Rightarrow> CFRSolver \<Rightarrow> (Utility \<times> CFRSolver) option" where
  "cfr_recursive depth player pi_reach_player pi_reach_opponent s =
     (if is_terminal then Some (get_payoff player, s)
      else if is_chance_node then
        foldM_option
          (\<lambda>(outcome, probability) (expected_utility, s1).
             Option.bind
               (cfr_recursive (depth + 1) player pi_reach_player pi_reach_opponent s1)
               (\<lambda>(u, s2). Some (expected_utility + probability * u, s2)))
          get_chance_outcomes (0.0, s)
      else if get_current_player = player then
        (let k = get_info_set_key;
             legal_actions = get_legal_actions;
             (strategy0, s0) = node_strategy s k legal_actions
         in Option.bind
              (foldM_option
                 (\<lambda>a (strategy, action_utilities, node_utility, s1).
                    (let (action_prob, strategy') = map_index strategy a
                     in Option.bind
                          (cfr_recursive (depth + 1) player
                             (pi_reach_player * action_prob) pi_reach_opponent s1)
                          (\<lambda>(u, s2).
                             Some (strategy', action_utilities(a \<mapsto> u),
                                   node_utility + action_prob * u, s2))))
                 legal_actions (strategy0, Map.empty, 0.0, s0))
              (\<lambda>(strategy, action_utilities, node_utility, s3).
                 Some (node_utility,
                       player_node_finish s3 k legal_actions strategy action_utilities
                         node_utility pi_reach_opponent)))
      else
        (let k = get_info_set_key;
             legal_actions = get_legal_actions;
             (strategy0, s0) = node_strategy s k legal_actions
         in Option.bind
              (foldM_option
                 (\<lambda>a (strategy, node_utility, s1).
                    (let (action_prob, strategy') = map_index strategy a
                     in Option.bind
                          (cfr_recursive (depth + 1) player pi_reach_player
                             (pi_reach_opponent * action_prob) s1)
                          (\<lambda>(u, s2). Some (strategy', node_utility + action_prob * u, s2))))
                 legal_actions (strategy0, 0.0, s0))
              (\<lambda>(strategy, node_utility, s3). Some (node_utility, s3))))"

text \<open>
  \<open>train\<close>: the body of one iteration, and the \<open>for\<close> loop over \<open>i < iterations\<close>
  (no turn at all for \<open>iterations \<le> 0\<close>); the parameter is written \<open>iters\<close>.
\<close>

definition train_iteration :: "CFRSolver \<Rightarrow> CFRSolver option" where
  "train_iteration s =
     Option.bind
       (foldM_option
          (\<lambda>player s1. map_option snd (cfr_recursive 0 player 1.0 1.0 s1))
          [0, 1] (s\<lparr>iteration := iteration s + 1\<rparr>))
       (\<lambda>s2. Some (if iteration s2 mod 100 = 0 then discount_regrets s2 else s2))"

definition train :: "int \<Rightarrow> CFRSolver \<Rightarrow> CFRSolver option" where
  "train iters s = foldM_option (\<lambda>i. train_iteration) (replicate (nat iters) ()) s"

text \<open>The public strategy query \<open>CFRSolver::get_strategy\<close>.\<close>

definition get_strategy :: "CFRSolver \<Rightarrow> string \<Rightarrow> Action list \<Rightarrow> (Action \<rightharpoonup> real) \<times> CFRSolver" where
  "get_strategy s k legal_actions =
     (if info_sets s k = None
      then (uniform_loop legal_actions Map.empty (1.0 / real (length legal_actions)), s)
      else (let (info, s1) = info_set_ref s k;
                (avg, info') = get_average_strategy info legal_actions
            in (avg, put_info_set s1 k info')))"

subsection \<open>Operations on one information set\<close>

text \<open>
  The operations the solver applies to an information set, as data, so that a property
  can speak about every finite sequence of them. The periodic discount uses the solver's
  \<open>discount_alpha\<close> and \<open>discount_beta\<close>, which keep their initial values 1.5 and 0.5.
\<close>

datatype info_op =
    UpdateRegrets "Action \<rightharpoonup> real" real
  | DiscountRegrets
  | AccumulateStrategy "Action \<rightharpoonup> real" int
  | GetStrategy "Action list"

fun apply_info_op :: "info_op \<Rightarrow> InfoSet \<Rightarrow> InfoSet" where
  "apply_info_op (UpdateRegrets regrets weight) info = update_regrets info regrets weight"
| "apply_info_op DiscountRegrets info =
     discount_info_set (discount_alpha CFRSolver_new) (discount_beta CFRSolver_new) info"
| "apply_info_op (AccumulateStrategy strategy n) info = accumulate_strategy info strategy n"
| "apply_info_op (GetStrategy legal_actions) info = snd (InfoSet_get_strategy info legal_actions)"

definition regrets_nonneg :: "InfoSet \<Rightarrow> bool" where
  "regrets_nonneg info = (\<forall>a r. regret_sum info a = Some r \<longrightarrow> 0 \<le> r)"

section \<open>MCTS engine (step8\_mcts\_complete.cpp)\<close>

text \<open>
  The tree is a datatype: a node owns the list of its children. The source's \<open>parent\<close>
  pointer is the node that holds a node in its \<open>children\<close>; the root has none. The
  field \<open>is_terminal\<close> is named \<open>is_terminal_node\<close>, since the solver's hook already
  has that name.

  The Mersenne twister and \<open>std::uniform_int_distribution\<close> are not modelled: the
  generator is an arbitrary sequence of draws, and a draw for the range \<open>[lo, hi]\<close> is
  the next element reduced into that range. \<open>INFINITY\<close> and \<open>-INFINITY\<close> are the two
  extra values of the type \<open>ucb\<close>.
\<close>

definition EXPLORATION_CONSTANT :: real where
  "EXPLORATION_CONSTANT = 1.41"

datatype MCTSNode =
  MCTSNode (visits: int) (total_value: real) (action: int) (children: "MCTSNode list")
    (untried_actions: "int list") (is_terminal_node: bool)

datatype ucb = NegInfinity | Finite real | Infinity

fun ucb_greater :: "ucb \<Rightarrow> ucb \<Rightarrow> bool" where
  "ucb_greater Infinity Infinity = False"
| "ucb_greater Infinity b = True"
| "ucb_greater (Finite a) (Finite b) = (a > b)"
| "ucb_greater (Finite a) NegInfinity = True"
| "ucb_greater a b = False"

definition get_ucb1_score :: "int option \<Rightarrow> MCTSNode \<Rightarrow> ucb" where
  "get_ucb1_score parent_visits node =
     (if visits node = 0 then Infinity
      else case parent_visits of
        None \<Rightarrow> Finite 0.0
      | Some pv \<Rightarrow>
          Finite (total_value node / real_of_int (visits node)
                  + EXPLORATION_CONSTANT * sqrt (ln (real_of_int pv) / real_of_int (visits node))))"

definition get_average_value :: "MCTSNode \<Rightarrow> real" where
  "get_average_value node =
     (if visits node > 0 then total_value node / real_of_int (visits node) else 0.0)"

record rng_state =
  draws :: "nat \<Rightarrow> nat"
  drawn :: nat

definition uniform_int :: "nat \<Rightarrow> nat \<Rightarrow> rng_state \<Rightarrow> nat \<times> rng_state" where
  "uniform_int lo hi g = (lo + draws g (drawn g) mod (hi - lo + 1), g\<lparr>drawn := drawn g + 1\<rparr>)"

definition get_legal_actions_after :: "int \<Rightarrow> int list" where "get_legal_actions_after a = []"
definition is_terminal_state_after :: "int \<Rightarrow> bool" where "is_terminal_state_after a = False"
definition evaluate_terminal_state :: real where "evaluate_terminal_state = 0.0"
definition is_terminal_in_simulation :: bool where "is_terminal_in_simulation = False"
definition get_available_actions_simulation :: "int list" where "get_available_actions_simulation = []"
definition evaluate_final_state :: real where "evaluate_final_state = 0.0"

fun select_loop :: "int \<Rightarrow> MCTSNode list \<Rightarrow> nat \<Rightarrow> nat option \<Rightarrow> ucb \<Rightarrow> nat option" where
  "select_loop pv [] i best best_score = best"
| "select_loop pv (c # cs) i best best_score =
     (let score = get_ucb1_score (Some pv) c
      in if ucb_greater score best_score
         then select_loop pv cs (i + 1) (Some i) score
         else select_loop pv cs (i + 1) best best_score)"

definition select_best_child :: "MCTSNode \<Rightarrow> nat option" where
  "select_best_child node = select_loop (visits node) (children node) 0 None NegInfinity"

definition expand :: "MCTSNode \<Rightarrow> rng_state \<Rightarrow> MCTSNode \<times> rng_state" where
  "expand node g =
     (let (idx, g') = uniform_int 0 (length (untried_actions node) - 1) g;
          a = untried_actions node ! idx;
          remaining = take idx (untried_actions node) @ drop (idx + 1) (untried_actions node);
          child = MCTSNode 0 0.0 a [] (get_legal_actions_after a) (is_terminal_state_after a)
      in (MCTSNode (visits node) (total_value node) (action node) (children node @ [child])
            remaining (is_terminal_node node), g'))"

function simulate_loop :: "int \<Rightarrow> rng_state \<Rightarrow> int \<times> rng_state" where
  "simulate_loop depth g =
     (if depth < 100 \<and> \<not> is_terminal_in_simulation then
        (let actions = get_available_actions_simulation
         in if actions = [] then (depth, g)
            else (let (idx, g') = uniform_int 0 (length actions - 1) g
                  in simulate_loop (depth + 1) g'))
      else (depth, g))"
  by pat_completeness auto
termination
  by (relation "measure (\<lambda>(depth, g). nat (100 - depth))") auto

definition simulate :: "MCTSNode \<Rightarrow> rng_state \<Rightarrow> real \<times> rng_state" where
  "simulate node g =
     (if is_terminal_node node then (evaluate_terminal_state, g)
      else (let (depth, g') = simulate_loop 0 g in (evaluate_final_state, g')))"

definition add_visit :: "MCTSNode \<Rightarrow> real \<Rightarrow> MCTSNode" where
  "add_visit node v =
     MCTSNode (visits node + 1) (total_value node + v) (action node) (children node)
       (untried_actions node) (is_terminal_node node)"

definition set_children :: "MCTSNode \<Rightarrow> MCTSNode list \<Rightarrow> MCTSNode" where
  "set_children node cs =
     MCTSNode (visits node) (total_value node) (action node) cs
       (untried_actions node) (is_terminal_node node)"

lemma select_loop_range:
  "select_loop pv cs i best best_score = Some j
   \<Longrightarrow> (case best of None \<Rightarrow> True | Some b \<Rightarrow> b < i)
   \<Longrightarrow> j < i + length cs"
proof (induction cs arbitrary: i best best_score)
  case Nil
  then show ?case by simp
next
  case (Cons c cs)
  show ?case
  proof (cases "ucb_greater (get_ucb1_score (Some pv) c) best_score")
    case True
    with Cons.prems have "select_loop pv cs (i + 1) (Some i) (get_ucb1_score (Some pv) c) = Some j"
      by (simp add: Let_def)
    from Cons.IH [OF this] show ?thesis by simp
  next
    case False
    with Cons.prems have sel: "select_loop pv cs (i + 1) best best_score = Some j"
      by (simp add: Let_def)
    from Cons.prems(2) have "case best of None \<Rightarrow> True | Some b \<Rightarrow> b < i + 1"
      by (cases best) auto
    from Cons.IH [OF sel this] show ?thesis by simp
  qed
qed

lemma select_best_child_range: "select_best_child node = Some j \<Longrightarrow> j < length (children node)"
  using select_loop_range [of "visits node" "children node" 0 None NegInfinity j]
  by (simp add: select_best_child_def)

lemma size_nth_children: "j < length cs \<Longrightarrow> size (cs ! j) < Suc (size_list size cs)"
  using size_list_estimation' [of "cs ! j" cs "size (cs ! j)" size]
  by (simp add: less_Suc_eq_le)

text \<open>
  One turn of the loop of \<open>search\<close>, as a recursion on the tree. The source walks down
  with a pointer (selection), expands or not, simulates, and walks back up through the
  \<open>parent\<close> pointers (backpropagation), adding the value to each node on the path and
  negating it after each step. Here the descent is the recursive call on the selected
  child, and the way back is the return: a call returns the updated node, the value it
  added to that node, and the generator; the caller adds the negated value to itself.
  \<open>select_best_child\<close> returning \<open>nullptr\<close> would be dereferenced by the loop test.
\<close>

function mcts_iteration :: "MCTSNode \<Rightarrow> rng_state \<Rightarrow> cpp_error + (MCTSNode \<times> real \<times> rng_state)" where
  "mcts_iteration node g =
     (if untried_actions node = [] \<and> children node \<noteq> [] then
        (case select_best_child node of
           None \<Rightarrow> Inl NullPointer
         | Some i \<Rightarrow>
             (case mcts_iteration (children node ! i) g of
                Inl e \<Rightarrow> Inl e
              | Inr (child', v, g') \<Rightarrow>
                  Inr (add_visit (set_children node ((children node)[i := child'])) (- v),
                       - v, g')))
      else if untried_actions node \<noteq> [] \<and> \<not> is_terminal_node node then
        (let (node1, g1) = expand node g;
             child = last (children node1);
             (v, g2) = simulate child g1;
             child' = add_visit child v
         in Inr (add_visit (set_children node1 (butlast (children node1) @ [child'])) (- v),
                 - v, g2))
      else
        (let (v, g1) = simulate node g in Inr (add_visit node v, v, g1)))"
  by pat_completeness auto
termination
proof (relation "measure (\<lambda>(node, g). size node)", goal_cases)
  case 1
  show ?case by simp
next
  case (2 node g i)
  then have "i < length (children node)" by (simp add: select_best_child_range)
  then have "size (children node ! i) < Suc (size_list size (children node))"
    by (rule size_nth_children)
  then show ?case by (cases node) simp
qed

record MCTSSearch =
  root :: MCTSNode
  rng :: rng_state
  simulation_count :: int

definition MCTSSearch_new :: "int list \<Rightarrow> rng_state \<Rightarrow> MCTSSearch" where
  "MCTSSearch_new legal_actions g =
     \<lparr>root = MCTSNode 0 0.0 (- 1) [] legal_actions False, rng = g, simulation_count = 0\<rparr>"

definition search_iteration :: "MCTSSearch \<Rightarrow> cpp_error + MCTSSearch" where
  "search_iteration s =
     (case mcts_iteration (root s) (rng s) of
        Inl e \<Rightarrow> Inl e
      | Inr (r, v, g) \<Rightarrow> Inr \<lparr>root = r, rng = g, simulation_count = simulation_count s + 1\<rparr>)"

fun search_loop :: "nat \<Rightarrow> MCTSSearch \<Rightarrow> cpp_error + MCTSSearch" where
  "search_loop 0 s = Inr s"
| "search_loop (Suc n) s =
     (case search_iteration s of Inl e \<Rightarrow> Inl e | Inr s' \<Rightarrow> search_loop n s')"

definition search :: "int \<Rightarrow> MCTSSearch \<Rightarrow> cpp_error + MCTSSearch" where
  "search iters s = search_loop (nat iters) s"

definition get_policy_distribution :: "MCTSSearch \<Rightarrow> real list" where
  "get_policy_distribution s =
     (let total_visits = fold (\<lambda>child t. t + visits child) (children (root s)) 0
      in if total_visits > 0
         then map (\<lambda>child. real_of_int (visits child) / real_of_int total_visits) (children (root s))
         else replicate (length (children (root s))) 0.0)"

definition get_best_action :: "MCTSSearch \<Rightarrow> int" where
  "get_best_action s =
     (case fold (\<lambda>child (best, max_visits).
                   if visits child > max_visits then (Some child, visits child)
                   else (best, max_visits))
             (children (root s)) (None, 0) of
        (None, m) \<Rightarrow> - 1
      | (Some best, m) \<Rightarrow> action best)"

subsection \<open>Sequences of calls and the shape they keep\<close>



section \<open>Properties of the hand evaluator\<close>

lemmas evaluator_defs =
  tally_card_def tally_init_def get_rank_def get_suit_def RANK_COUNT_def shl_def shr_def
  scan_counts_def scan_step_def ranks_desc_def scan_init_def get_top_kickers_def
  is_straight_from_mask_def windows_desc_def evaluate_non_flush_def evaluate_7cards_def
  popcount.simps RANK_ONE_PAIR_def RANK_TWO_PAIR_def RANK_THREE_OF_KIND_def
  RANK_STRAIGHT_def RANK_FULL_HOUSE_def RANK_FOUR_OF_KIND_def RANK_STRAIGHT_FLUSH_def
  RANK_FLUSH_def RANK_HIGH_CARD_def get_highest_kicker_def get_highest_kicker_exclude_def
  second_trips_def get_straight_high_def flush_lookup_def unique5_lookup_def
  evaluate_flush_hand_def evaluate_unique5_def is_straight_def get_highest_straight_def
  get_top_cards_def

lemma ref_rank7_pair_of_threes: "ref_rank7 [1, 14, 37, 49, 7, 19, 29] = [1, 1, 11, 10, 7]"
  by code_simp

lemma ref_rank7_pair_of_twos: "ref_rank7 [0, 13, 38, 50, 10, 18, 29] = [1, 0, 12, 11, 10]"
  by code_simp

lemma ref_rank7_aces_full_of_kings: "ref_rank7 [12, 25, 38, 11, 24, 37, 39] = [6, 12, 11]"
  by code_simp


text \<open>
  C1. The claim: for any two seven-card sets, the score of the first exceeds the score of
  the second exactly when the first beats the second under the standard rules. The code
  breaks it. Take the hands \<open>3\<spadesuit> 3\<heartsuit> K\<diamondsuit> Q\<clubsuit> 9\<spadesuit> 8\<heartsuit> 5\<diamondsuit>\<close> (cards 1, 14, 37, 49, 7, 19, 29) and
  \<open>2\<spadesuit> 2\<heartsuit> A\<diamondsuit> K\<clubsuit> Q\<spadesuit> 7\<heartsuit> 5\<diamondsuit>\<close> (cards 0, 13, 38, 50, 10, 18, 29). The pair of threes
  beats the pair of twos, yet it scores \<open>0x17AB\<close> against \<open>0x1ABC\<close>:
  \<open>get_top_kickers\<close> puts the highest kicker in the lowest nibble and the third kicker
  in bits 8 to 11, on top of the pair's rank.
\<close>

theorem evaluate_7cards_pair_order_inverted:
  "evaluate_7cards [1, 14, 37, 49, 7, 19, 29] = Inr 0x17AB
   \<and> evaluate_7cards [0, 13, 38, 50, 10, 18, 29] = Inr 0x1ABC
   \<and> ref_beats [1, 14, 37, 49, 7, 19, 29] [0, 13, 38, 50, 10, 18, 29]
   \<and> ref_rank7 [1, 14, 37, 49, 7, 19, 29] = [1, 1, 11, 10, 7]
   \<and> ref_rank7 [0, 13, 38, 50, 10, 18, 29] = [1, 0, 12, 11, 10]"
  by (simp add: evaluator_defs ref_beats_def ref_rank7_pair_of_threes ref_rank7_pair_of_twos)

text \<open>
  C6. The claim: a seven-card set with two distinct three-of-a-kinds scores as a full
  house (category 6) of the higher trips over the lower trips. The code breaks it: for
  \<open>A\<spadesuit> A\<heartsuit> A\<diamondsuit> K\<spadesuit> K\<heartsuit> K\<diamondsuit> 2\<clubsuit>\<close> (cards 12, 25, 38, 11, 24, 37, 39) the scan finds no
  pair, the full-house test \<open>trips \<noteq> -1 \<and> (pairs[0] \<noteq> -1 \<or> pair_count > 0)\<close> fails before
  the search for a second trips is reached, and the hand scores \<open>0x3C0B\<close>: category 3,
  three of a kind. The reference ranking gives the full house aces over kings.
\<close>

theorem evaluate_7cards_two_trips_not_full_house:
  "evaluate_7cards [12, 25, 38, 11, 24, 37, 39] = Inr 0x3C0B
   \<and> drop_bit 12 (0x3C0B :: int) = RANK_THREE_OF_KIND
   \<and> ref_rank7 [12, 25, 38, 11, 24, 37, 39] = [6, 12, 11]"
  by (simp add: evaluator_defs ref_rank7_aces_full_of_kings)

text \<open>
  C7. The claim: in the straight high-card computation of the table builder every
  executed shift amount \<open>i - 4\<close> is non-negative, and a mask holding the wheel and no
  higher straight yields 3. The code breaks it: the loop of
  \<open>EvaluatorTables::get_highest_straight\<close> runs down to \<open>i = 3\<close>, so for the wheel mask
  \<open>0x100F\<close> it evaluates \<open>mask >> -1\<close>, which C++ leaves undefined, and the flush-table
  entry of the wheel inherits it. The evaluator's own \<open>get_straight_high\<close> stops at
  \<open>i = 4\<close> and returns 3 on the same mask.
\<close>

theorem get_highest_straight_wheel_negative_shift:
  "get_highest_straight 0x100F = Inl UndefinedShift
   \<and> evaluate_flush_hand 0x100F = Inl UndefinedShift
   \<and> evaluate_7cards [12, 0, 1, 2, 3, 20, 30] = Inl UndefinedShift
   \<and> get_straight_high 0x100F = Inr 3"
  by (simp add: evaluator_defs)


section \<open>Properties of the equity simulator\<close>















lemma hero_score_example: "evaluate_7cards [12, 25, 0, 14, 28, 42, 7] = Inr 17152"
  by (simp add: evaluator_defs)















section \<open>Properties of the CFR solver\<close>

lemma cfr_recursive_no_result:
  assumes "cfr_recursive depth player a b s = Some y"
  shows False
proof (rule cfr_recursive.raw_induct [where P = "\<lambda>_ _ _ _ _ _. False", OF _ assms], goal_cases)
  case (1 f d p x z t y)
  have none: "f d' p' x' z' t' = None" for d' p' x' z' t'
    using 1(1) [of d' p' x' z' t'] by (cases "f d' p' x' z' t'") auto
  from 1(2) show ?case
    by (simp add: is_terminal_def is_chance_node_def get_legal_actions_def none
             split: prod.splits if_splits)
qed

lemma cfr_recursive_never_returns: "cfr_recursive depth player a b s = None"
  using cfr_recursive_no_result [of depth player a b s]
  by (cases "cfr_recursive depth player a b s") auto

lemma train_iteration_never_returns: "train_iteration s = None"
  by (simp add: train_iteration_def cfr_recursive_never_returns)

text \<open>
  C4. The claim: for every \<open>n \<ge> 0\<close>, \<open>train(n)\<close> on a fresh solver, with the hooks of the
  source, returns. It fails for \<open>n = 1\<close>: \<open>is_terminal\<close> is constantly false and there
  are always three legal actions, so \<open>cfr_recursive\<close> calls itself without end.
\<close>

theorem train_one_never_returns: "train 1 CFRSolver_new = None"
  by (simp add: train_def train_iteration_never_returns)

text \<open>
  C4, amended. With the hooks of the source, \<open>train(n)\<close> on a fresh solver returns
  exactly when \<open>n \<le> 0\<close>, and then leaves the solver as it was; for every \<open>n \<ge> 1\<close> it
  does not return.
\<close>

theorem train_returns_iff:
  "train n CFRSolver_new = (if n \<le> 0 then Some CFRSolver_new else None)"
proof (cases "n \<le> 0")
  case True
  then show ?thesis by (simp add: train_def)
next
  case False
  then obtain k where "nat n = Suc k" by (cases "nat n") auto
  then show ?thesis using False
    by (simp add: train_def train_iteration_never_returns)
qed

lemma regrets_nonneg_new: "regrets_nonneg InfoSet_new"
  by (simp add: regrets_nonneg_def InfoSet_new_def)

lemma regrets_nonneg_update: "regrets_nonneg info \<Longrightarrow> regrets_nonneg (update_regrets info regrets weight)"
  by (auto simp: regrets_nonneg_def update_regrets_def split: option.splits)

lemma regrets_nonneg_discount:
  "0 \<le> alpha \<Longrightarrow> regrets_nonneg info \<Longrightarrow> regrets_nonneg (discount_info_set alpha beta info)"
  by (auto simp: regrets_nonneg_def discount_info_set_def)

lemma regrets_nonneg_accumulate:
  "regrets_nonneg info \<Longrightarrow> regrets_nonneg (accumulate_strategy info strategy n)"
  by (simp add: regrets_nonneg_def accumulate_strategy_def Let_def)

lemma clip_regrets_entries:
  "fst (clip_regrets la rs strategy tot) a =
     (if a \<in> set la \<and> rs a = None then Some 0 else rs a)"
  by (induction la arbitrary: rs strategy tot)
     (auto simp: map_index_def Let_def split: option.splits prod.splits)

lemma get_strategy_regret_sum:
  "regret_sum (snd (InfoSet_get_strategy info la)) a =
     (if a \<in> set la \<and> regret_sum info a = None then Some 0 else regret_sum info a)"
proof -
  obtain rs st tot where c: "clip_regrets la (regret_sum info) Map.empty 0 = (rs, st, tot)"
    by (cases "clip_regrets la (regret_sum info) Map.empty 0") auto
  have "rs a = (if a \<in> set la \<and> regret_sum info a = None then Some 0 else regret_sum info a)"
    using clip_regrets_entries [of la "regret_sum info" Map.empty 0 a] c by simp
  then show ?thesis
    by (simp add: InfoSet_get_strategy_def c Let_def)
qed

lemma regrets_nonneg_get_strategy:
  "regrets_nonneg info \<Longrightarrow> regrets_nonneg (snd (InfoSet_get_strategy info la))"
  by (auto simp: regrets_nonneg_def get_strategy_regret_sum split: if_splits)

lemma regrets_nonneg_apply: "regrets_nonneg info \<Longrightarrow> regrets_nonneg (apply_info_op op info)"
  by (cases op)
     (simp_all add: regrets_nonneg_update regrets_nonneg_discount regrets_nonneg_accumulate
        regrets_nonneg_get_strategy CFRSolver_new_def)

lemma regrets_nonneg_fold:
  "regrets_nonneg info \<Longrightarrow> regrets_nonneg (fold apply_info_op ops info)"
  by (induction ops arbitrary: info) (simp_all add: regrets_nonneg_apply)

text \<open>
  C5. Starting from a freshly created information set, after any finite sequence of
  \<open>update_regrets\<close>, \<open>discount_regrets\<close>, \<open>accumulate_strategy\<close> and \<open>get_strategy\<close>
  operations every stored cumulative regret is non-negative. Every prefix of a sequence
  is a sequence, so this holds after each operation.
\<close>

theorem stored_regrets_nonneg:
  "regrets_nonneg (fold apply_info_op ops InfoSet_new)"
  by (rule regrets_nonneg_fold [OF regrets_nonneg_new])

theorem stored_regrets_nonneg_witness:
  "regrets_nonneg (fold apply_info_op
      [UpdateRegrets [0 \<mapsto> - 3, 1 \<mapsto> 2] 1, DiscountRegrets, GetStrategy [0, 1, 2]] InfoSet_new)
   \<and> regret_sum (fold apply_info_op
      [UpdateRegrets [0 \<mapsto> - 3, 1 \<mapsto> 2] 1, DiscountRegrets, GetStrategy [0, 1, 2]] InfoSet_new) 0 = Some 0
   \<and> regret_sum (fold apply_info_op
      [UpdateRegrets [0 \<mapsto> - 3, 1 \<mapsto> 2] 1, DiscountRegrets, GetStrategy [0, 1, 2]] InfoSet_new) 1 = Some (4 / 3)
   \<and> regret_sum (fold apply_info_op
      [UpdateRegrets [0 \<mapsto> - 3, 1 \<mapsto> 2] 1, DiscountRegrets, GetStrategy [0, 1, 2]] InfoSet_new) 2 = Some 0"
  using stored_regrets_nonneg
    [of "[UpdateRegrets [0 \<mapsto> - 3, 1 \<mapsto> 2] 1, DiscountRegrets, GetStrategy [0, 1, 2]]"]
  by (simp add: update_regrets_def discount_info_set_def get_strategy_regret_sum InfoSet_new_def
      CFRSolver_new_def map_index_def powr_minus)

lemma uniform_loop_apply: "uniform_loop la m p a = (if a \<in> set la then Some p else m a)"
  by (induction la arbitrary: m) auto

text \<open>
  C10. For a key that is not in the information-set store, \<open>get_strategy\<close> returns the
  uniform distribution over the legal actions and the solver it was given: no
  information set is created and nothing stored changes.
\<close>

theorem get_strategy_unknown_key:
  assumes "info_sets s k = None"
  shows "get_strategy s k la =
           (\<lambda>a. if a \<in> set la then Some (1 / real (length la)) else None, s)"
  using assms by (auto simp: get_strategy_def uniform_loop_apply)

theorem get_strategy_unknown_key_witness:
  "info_sets (put_info_set CFRSolver_new ''example_state'' InfoSet_new) ''river'' = None
   \<and> get_strategy (put_info_set CFRSolver_new ''example_state'' InfoSet_new) ''river'' [0, 1, 2] =
       (\<lambda>a. if a \<in> set [0, 1, 2] then Some (1 / real (length [0 :: int, 1, 2])) else None,
        put_info_set CFRSolver_new ''example_state'' InfoSet_new)
   \<and> fst (get_strategy (put_info_set CFRSolver_new ''example_state'' InfoSet_new)
            ''river'' [0, 1, 2]) 1 = Some (1 / 3)"
proof -
  have h: "info_sets (put_info_set CFRSolver_new ''example_state'' InfoSet_new) ''river'' = None"
    by (simp add: put_info_set_def CFRSolver_new_def)
  show ?thesis
    using h get_strategy_unknown_key [OF h, of "[0, 1, 2]"] by simp
qed

section \<open>Properties of the realized-equity adjustment\<close>

text \<open>
  C9. The claim: for raw equity 0.60, position 6, stack 100, pot 10, dry board, one
  opponent, in position, opponent skill 0.5, the result is
  \<open>0.60 \<cdot> 1.18 \<cdot> 0.90 \<cdot> 1.08 \<cdot> 1.0 \<cdot> 0.975\<close>. It fails: the stack-to-pot ratio is
  \<open>100 / 10 = 10\<close>, which \<open>StackDepthAdjustment::calculate\<close> maps to 1.00 (the band
  below 13), not to 0.90.
\<close>

theorem calculate_complete_scenario_not_as_claimed:
  "calculate_complete 0.60 6 100 10 0 1 True 0.5 \<noteq>
     Inr \<lparr>raw_equity = 0.60, eqr = 0.60 * 1.18 * 0.90 * 1.08 * 1.0 * 0.975,
          position_factor = 1.18, stack_factor = 0.90, board_factor = 1.08,
          multiway_factor = 1.0, skill_factor = 0.975\<rparr>
   \<and> map_sum id eqr (calculate_complete 0.60 6 100 10 0 1 True 0.5) \<noteq>
       Inr (0.60 * 1.18 * 0.90 * 1.08 * 1.0 * 0.975)"
  by (simp add: calculate_complete_def get_factor_def FACTORS_def
      StackDepthAdjustment_calculate_def BoardTextureAdjustment_calculate_def
      MultiwayAdjustment_calculate_def SkillAdjustment_calculate_def)

text \<open>
  C9, amended. For that input the result is \<open>0.60 \<cdot> 1.18 \<cdot> 1.00 \<cdot> 1.08 \<cdot> 1.0 \<cdot> 0.975\<close>,
  which is 0.745524, with stack factor 1.00.
\<close>

theorem calculate_complete_scenario:
  "calculate_complete 0.60 6 100 10 0 1 True 0.5 =
     Inr \<lparr>raw_equity = 0.60, eqr = 0.60 * 1.18 * 1.00 * 1.08 * 1.0 * 0.975,
          position_factor = 1.18, stack_factor = 1.00, board_factor = 1.08,
          multiway_factor = 1.0, skill_factor = 0.975\<rparr>
   \<and> 0.60 * 1.18 * 1.00 * 1.08 * 1.0 * 0.975 = (0.745524 :: real)"
  by (simp add: calculate_complete_def get_factor_def FACTORS_def
      StackDepthAdjustment_calculate_def BoardTextureAdjustment_calculate_def
      MultiwayAdjustment_calculate_def SkillAdjustment_calculate_def)

section \<open>Properties of the MCTS engine\<close>

declare mcts_iteration.simps [simp del]
















lemmas mcts_eval =
  mcts_iteration.simps search_def search_iteration_def MCTSSearch_new_def expand_def uniform_int_def
  simulate_def is_terminal_in_simulation_def get_available_actions_simulation_def evaluate_final_state_def
  add_visit_def set_children_def get_legal_actions_after_def is_terminal_state_after_def
  select_best_child_def get_ucb1_score_def Let_def get_policy_distribution_def

lemma search_three_from_fresh: "search 3 (MCTSSearch_new [4, 7] \<lparr>draws = (\<lambda>k. 0), drawn = 0\<rparr>) =
   Inr \<lparr>root = MCTSNode 3 0 (- 1) [MCTSNode 2 0 4 [] [] False, MCTSNode 1 0 7 [] [] False] [] False,
        rng = \<lparr>draws = (\<lambda>k. 0), drawn = 2\<rparr>, simulation_count = 3\<rparr>"
  by (simp add: mcts_eval numeral_3_eq_3)






end
